theory Spec2Isabelle
  imports Main "HOL-Library.Char_ord" "HOL-Library.List_Lexorder" "HOL-Library.Word"
begin

section \<open>JSON values and Go values as encoding/json sees them\<close>

text \<open>
  The request body of every call is produced by \<^verbatim>\<open>json.Marshal\<close>. The model keeps the
  body as the JSON value that is rendered (its members, their names and their order); the
  byte rendering of that value is the standard library's and is not modelled.
\<close>

datatype json =
    JNull
  | JNumber int
  | JString string
  | JArray "json list"
  | JObject "(string \<times> json) list"

text \<open>
  A Go value as reflection presents it to \<^verbatim>\<open>json.Marshal\<close>. A struct is the list of its
  fields in declaration order, each with its Go name, the name in its \<^verbatim>\<open>json:"..."\<close> tag
  and its value. A slice is \<open>None\<close> when nil. A map with string keys and string values is
  the list of its entries. \<open>GoFunc\<close> stands for a value of a kind that cannot be encoded:
  \<^verbatim>\<open>sendRequest\<close> takes an \<^verbatim>\<open>interface{}\<close>.
\<close>

datatype govalue =
    GoString string
  | GoInt int
  | GoSlice "govalue list option"
  | GoMap "(string \<times> string) list"
  | GoStruct "(string \<times> string \<times> govalue) list"
  | GoFunc

datatype error =
    UnsupportedTypeError
  | NewRequestError string
  | TransportError string
  | ReadError string
  | UnmarshalError string
  | ErrorString string

text \<open>An identifier is exported when it starts with an upper-case letter.\<close>

definition exported :: "string \<Rightarrow> bool" where
  "exported name = (case name of [] \<Rightarrow> False | c # _ \<Rightarrow> c \<in> set ''ABCDEFGHIJKLMNOPQRSTUVWXYZ'')"

text \<open>The first error of a list of results, or all the values.\<close>

fun collect :: "(error + 'a) list \<Rightarrow> error + 'a list" where
  "collect [] = Inr []"
| "collect (Inl e # rs) = Inl e"
| "collect (Inr x # rs) = (case collect rs of Inl e \<Rightarrow> Inl e | Inr xs \<Rightarrow> Inr (x # xs))"

text \<open>
  \<^verbatim>\<open>json.Marshal\<close>: a struct becomes an object with one member for each exported field, named
  by the field's tag, in declaration order; fields that are not exported are left out.
  A nil slice is \<^verbatim>\<open>null\<close>; the keys of a map are sorted.
\<close>

fun Marshal :: "govalue \<Rightarrow> error + json" where
  "Marshal (GoString s) = Inr (JString s)"
| "Marshal (GoInt i) = Inr (JNumber i)"
| "Marshal (GoSlice None) = Inr JNull"
| "Marshal (GoSlice (Some vs)) =
     (case collect (map Marshal vs) of Inl e \<Rightarrow> Inl e | Inr js \<Rightarrow> Inr (JArray js))"
| "Marshal (GoMap kvs) = Inr (JObject (map (\<lambda>kv. (fst kv, JString (snd kv))) (sort_key fst kvs)))"
| "Marshal (GoStruct fs) =
     (case collect (map (\<lambda>f. case Marshal (snd (snd f)) of Inl e \<Rightarrow> Inl e
                                | Inr j \<Rightarrow> Inr (fst (snd f), j))
                        (filter (\<lambda>f. exported (fst f)) fs)) of
        Inl e \<Rightarrow> Inl e
      | Inr ms \<Rightarrow> Inr (JObject ms))"
| "Marshal GoFunc = Inl UnsupportedTypeError"

text \<open>The value of the member of an object with a given name, if any.\<close>

fun json_member :: "json \<Rightarrow> string \<Rightarrow> json option" where
  "json_member (JObject ms) name = map_of ms name"
| "json_member _ name = None"

section \<open>The data model of package plasso (members.go)\<close>

record space =
  LogoutUrl :: string

record plasso =
  LoggedIn :: bool
  Token :: string
  Id :: string
  PlanId :: "32 word"
  Space :: space

record plasso_gqlQuery =
  Query :: string

record gqlResponse_Space =
  Slug :: string
  LogoutUrl :: string

record gqlResponse_Member =
  Id :: string
  PlanId :: "32 word"
  Space :: gqlResponse_Space

record gqlResponse_Data =
  Member :: gqlResponse_Member

record gqlResponse =
  Data :: gqlResponse_Data

section \<open>The data model of package flexkit\<close>

text \<open>A slice is \<open>None\<close> when nil.\<close>

type_synonym 'a slice = "'a list option"

record gqlQuery =
  Query :: string
  Variables :: "(string \<times> string) list"

record DataItem =
  Id :: string
  Value :: string

record memberDataResponse_Plan =
  Alias :: string

record memberDataResponse_ShippingInfo =
  Name :: string
  Address :: string
  City :: string
  State :: string
  Zip :: string
  Country :: string

record memberDataResponse_Member =
  Id :: string
  Name :: string
  Email :: string
  CcType :: string
  CcLast4 :: string
  Plan :: memberDataResponse_Plan
  ShippingInfo :: memberDataResponse_ShippingInfo
  DataFields :: "DataItem slice"

record memberDataResponse_Data =
  Member :: memberDataResponse_Member

record memberDataResponse =
  Data :: memberDataResponse_Data

record LoginRequest =
  PublicKey :: string
  Email :: string
  Password :: string

record Product =
  Id :: string
  Qty :: string
  Amount :: string

record PaymentRequest =
  PublicKey :: string
  Token :: string
  Products :: "Product slice"
  BillingAddress :: string
  BillingCity :: string
  BillingState :: string
  BillingZip :: string
  BillingCountry :: string
  ShippingName :: string
  ShippingAddress :: string
  ShippingCity :: string
  ShippingState :: string
  ShippingZip :: string
  ShippingCountry :: string
  ShippingOptions :: string
  DataFields :: "DataItem slice"
  Coupon :: string
  Email :: string
  Name :: string

record SubscriptionRequest =
  SubscriptionFor :: string
  Email :: string
  Name :: string
  Password :: string
  Plan :: string
  Token :: string
  BillingAddress :: string
  BillingCity :: string
  BillingState :: string
  BillingZip :: string
  BillingCountry :: string
  ShippingName :: string
  ShippingAddress :: string
  ShippingCity :: string
  ShippingState :: string
  ShippingZip :: string
  ShippingCountry :: string
  ShippingOptions :: string
  DataFields :: "DataItem slice"
  PublicKey :: string

record tokenResponse =
  Token :: string

record CreditCardRequest =
  Last4 :: string
  Type :: string
  PlanId :: string
  Token :: string
  memberToken :: string

record SettingsRequest =
  Email :: string
  Name :: string
  ShippingName :: string
  ShippingAddress :: string
  ShippingCity :: string
  ShippingState :: string
  ShippingZip :: string
  ShippingCountry :: string
  ShippingOptions :: string
  token :: string

record Member =
  PublicKey :: string
  Token :: string

record MemberData =
  Id :: string
  Email :: string
  Name :: string
  CreditCardLast4 :: string
  CreditCardType :: string
  ShippingName :: string
  ShippingAddress :: string
  ShippingCity :: string
  ShippingState :: string
  ShippingZip :: string
  ShippingCountry :: string
  ShippingOptions :: string
  DataFields :: "DataItem slice"
  Plan :: string

section \<open>The structs as encoding/json sees them\<close>

text \<open>
  Each function lists the fields of a struct declaration in order: the Go name of the
  field, the name in its json tag, and the value.
\<close>

definition DataItem_value :: "DataItem \<Rightarrow> govalue" where
  "DataItem_value d =
     GoStruct [(''Id'', ''id'', GoString (DataItem.Id d)),
               (''Value'', ''value'', GoString (DataItem.Value d))]"

definition Product_value :: "Product \<Rightarrow> govalue" where
  "Product_value p =
     GoStruct [(''Id'', ''id'', GoString (Product.Id p)),
               (''Qty'', ''qty'', GoString (Product.Qty p)),
               (''Amount'', ''amount'', GoString (Product.Amount p))]"

definition slice_value :: "('a \<Rightarrow> govalue) \<Rightarrow> 'a slice \<Rightarrow> govalue" where
  "slice_value f xs = GoSlice (map_option (map f) xs)"

definition gqlQuery_value :: "gqlQuery \<Rightarrow> govalue" where
  "gqlQuery_value q =
     GoStruct [(''Query'', ''query'', GoString (gqlQuery.Query q)),
               (''Variables'', ''variables'', GoMap (gqlQuery.Variables q))]"

definition LoginRequest_value :: "LoginRequest \<Rightarrow> govalue" where
  "LoginRequest_value r =
     GoStruct [(''PublicKey'', ''public_key'', GoString (LoginRequest.PublicKey r)),
               (''Email'', ''email'', GoString (LoginRequest.Email r)),
               (''Password'', ''password'', GoString (LoginRequest.Password r))]"

definition PaymentRequest_value :: "PaymentRequest \<Rightarrow> govalue" where
  "PaymentRequest_value r =
     GoStruct [(''PublicKey'', ''public_key'', GoString (PaymentRequest.PublicKey r)),
               (''Token'', ''token'', GoString (PaymentRequest.Token r)),
               (''Products'', ''products'', slice_value Product_value (PaymentRequest.Products r)),
               (''BillingAddress'', ''billing_address'', GoString (PaymentRequest.BillingAddress r)),
               (''BillingCity'', ''billing_city'', GoString (PaymentRequest.BillingCity r)),
               (''BillingState'', ''billing_state'', GoString (PaymentRequest.BillingState r)),
               (''BillingZip'', ''billing_zip'', GoString (PaymentRequest.BillingZip r)),
               (''BillingCountry'', ''billing_country'', GoString (PaymentRequest.BillingCountry r)),
               (''ShippingName'', ''shipping_name'', GoString (PaymentRequest.ShippingName r)),
               (''ShippingAddress'', ''shipping_address'', GoString (PaymentRequest.ShippingAddress r)),
               (''ShippingCity'', ''shipping_city'', GoString (PaymentRequest.ShippingCity r)),
               (''ShippingState'', ''shipping_state'', GoString (PaymentRequest.ShippingState r)),
               (''ShippingZip'', ''shipping_zip'', GoString (PaymentRequest.ShippingZip r)),
               (''ShippingCountry'', ''shipping_country'', GoString (PaymentRequest.ShippingCountry r)),
               (''ShippingOptions'', ''shipping_options'', GoString (PaymentRequest.ShippingOptions r)),
               (''DataFields'', ''data_fields'', slice_value DataItem_value (PaymentRequest.DataFields r)),
               (''Coupon'', ''coupon'', GoString (PaymentRequest.Coupon r)),
               (''Email'', ''email'', GoString (PaymentRequest.Email r)),
               (''Name'', ''name'', GoString (PaymentRequest.Name r))]"

definition SubscriptionRequest_value :: "SubscriptionRequest \<Rightarrow> govalue" where
  "SubscriptionRequest_value r =
     GoStruct [(''SubscriptionFor'', ''subscription_for'', GoString (SubscriptionRequest.SubscriptionFor r)),
               (''Email'', ''email'', GoString (SubscriptionRequest.Email r)),
               (''Name'', ''name'', GoString (SubscriptionRequest.Name r)),
               (''Password'', ''password'', GoString (SubscriptionRequest.Password r)),
               (''Plan'', ''plan'', GoString (SubscriptionRequest.Plan r)),
               (''Token'', ''token'', GoString (SubscriptionRequest.Token r)),
               (''BillingAddress'', ''billing_address'', GoString (SubscriptionRequest.BillingAddress r)),
               (''BillingCity'', ''billing_city'', GoString (SubscriptionRequest.BillingCity r)),
               (''BillingState'', ''billing_state'', GoString (SubscriptionRequest.BillingState r)),
               (''BillingZip'', ''billing_zip'', GoString (SubscriptionRequest.BillingZip r)),
               (''BillingCountry'', ''billing_country'', GoString (SubscriptionRequest.BillingCountry r)),
               (''ShippingName'', ''shipping_name'', GoString (SubscriptionRequest.ShippingName r)),
               (''ShippingAddress'', ''shipping_address'', GoString (SubscriptionRequest.ShippingAddress r)),
               (''ShippingCity'', ''shipping_city'', GoString (SubscriptionRequest.ShippingCity r)),
               (''ShippingState'', ''shipping_state'', GoString (SubscriptionRequest.ShippingState r)),
               (''ShippingZip'', ''shipping_zip'', GoString (SubscriptionRequest.ShippingZip r)),
               (''ShippingCountry'', ''shipping_country'', GoString (SubscriptionRequest.ShippingCountry r)),
               (''ShippingOptions'', ''shipping_options'', GoString (SubscriptionRequest.ShippingOptions r)),
               (''DataFields'', ''data_fields'', slice_value DataItem_value (SubscriptionRequest.DataFields r)),
               (''PublicKey'', ''public_key'', GoString (SubscriptionRequest.PublicKey r))]"

definition CreditCardRequest_value :: "CreditCardRequest \<Rightarrow> govalue" where
  "CreditCardRequest_value r =
     GoStruct [(''Last4'', ''cc_last_4'', GoString (CreditCardRequest.Last4 r)),
               (''Type'', ''cc_type'', GoString (CreditCardRequest.Type r)),
               (''PlanId'', ''plan'', GoString (CreditCardRequest.PlanId r)),
               (''Token'', ''token'', GoString (CreditCardRequest.Token r)),
               (''memberToken'', ''pltoken'', GoString (CreditCardRequest.memberToken r))]"

definition SettingsRequest_value :: "SettingsRequest \<Rightarrow> govalue" where
  "SettingsRequest_value r =
     GoStruct [(''Email'', ''email'', GoString (SettingsRequest.Email r)),
               (''Name'', ''name'', GoString (SettingsRequest.Name r)),
               (''ShippingName'', ''shipping_name'', GoString (SettingsRequest.ShippingName r)),
               (''ShippingAddress'', ''shipping_address'', GoString (SettingsRequest.ShippingAddress r)),
               (''ShippingCity'', ''shipping_city'', GoString (SettingsRequest.ShippingCity r)),
               (''ShippingState'', ''shipping_state'', GoString (SettingsRequest.ShippingState r)),
               (''ShippingZip'', ''shipping_zip'', GoString (SettingsRequest.ShippingZip r)),
               (''ShippingCountry'', ''shipping_country'', GoString (SettingsRequest.ShippingCountry r)),
               (''ShippingOptions'', ''shipping_options'', GoString (SettingsRequest.ShippingOptions r)),
               (''token'', ''pltoken'', GoString (SettingsRequest.token r))]"

section \<open>HTTP and the outside world\<close>

text \<open>\<^verbatim>\<open>time.Duration\<close> counts nanoseconds.\<close>

definition Second :: int where
  "Second = 1000000000"

record Client =
  Timeout :: int

record Request =
  Method :: string
  URL :: string
  Header :: "(string \<times> string) list"
  ReqBody :: json

text \<open>A response: its status code and what \<^verbatim>\<open>ioutil.ReadAll\<close> gives for its body.\<close>

record Response =
  StatusCode :: int
  Body :: "error + string"

text \<open>
  What the package takes from outside: whether \<^verbatim>\<open>http.NewRequest\<close> accepts a method and
  a URL, what \<^verbatim>\<open>client.Do\<close> returns for a request, and what \<^verbatim>\<open>json.Unmarshal\<close> of a body
  into a zero value of the response type gives.
\<close>

record world =
  newRequestErr :: "string \<Rightarrow> string \<Rightarrow> error option"
  Do :: "Client \<Rightarrow> Request \<Rightarrow> error + Response"
  unmarshalToken :: "string \<Rightarrow> error + tokenResponse"
  unmarshalMemberData :: "string \<Rightarrow> error + memberDataResponse"
  unmarshalGql :: "string \<Rightarrow> error + gqlResponse"

text \<open>The requests a call has handed to \<^verbatim>\<open>client.Do\<close>, each with the client that sent it.\<close>

type_synonym wire = "(Client \<times> Request) list"

definition NewRequest :: "world \<Rightarrow> string \<Rightarrow> string \<Rightarrow> json \<Rightarrow> error + Request" where
  "NewRequest w method url body =
     (case newRequestErr w method url of
        Some err \<Rightarrow> Inl err
      | None \<Rightarrow> Inr \<lparr>Method = (if method = [] then ''GET'' else method), URL = url,
                       Header = [], ReqBody = body\<rparr>)"

definition HeaderSet :: "(string \<times> string) list \<Rightarrow> string \<Rightarrow> string \<Rightarrow> (string \<times> string) list" where
  "HeaderSet h k v = filter (\<lambda>kv. fst kv \<noteq> k) h @ [(k, v)]"

text \<open>The verb \<^verbatim>\<open>%d\<close> of \<^verbatim>\<open>fmt.Sprintf\<close>.\<close>

fun string_of_nat :: "nat \<Rightarrow> string" where
  "string_of_nat n =
     (if n < 10 then [''0123456789'' ! n]
      else string_of_nat (n div 10) @ [''0123456789'' ! (n mod 10)])"

declare string_of_nat.simps [simp del]

definition string_of_int :: "int \<Rightarrow> string" where
  "string_of_int i = (if i < 0 then CHR ''-'' # string_of_nat (nat (- i)) else string_of_nat (nat i))"

text \<open>A nil byte slice reads as the empty one.\<close>

definition bytes :: "string option \<Rightarrow> string" where
  "bytes b = (case b of None \<Rightarrow> [] | Some s \<Rightarrow> s)"

section \<open>flexkit/flexkit.go\<close>

definition domain :: string where
  "domain = ''https://plasso.com''"

definition getMemberQuery :: string where
  "getMemberQuery =
     concat (map (\<lambda>l. l @ [CHR 0x0A])
       [[],
        ''query getMember($token: String) {'',
        ''  member(token: $token) {'',
        ''  '' @ [CHR 0x09] @ ''id,'',
        ''    name,'',
        ''    email,'',
        ''    ccType,'',
        ''    ccLast4,'',
        ''    shippingInfo {'',
        ''      name'',
        ''      address'',
        ''      city'',
        ''      state'',
        ''      zip'',
        ''      country'',
        ''    },'',
        ''    dataFields {'',
        ''      id,'',
        ''      value'',
        ''    },'',
        ''    plan {'',
        ''    '' @ [CHR 0x09] @ ''alias'',
        ''    }'',
        ''  }'']) @ ''}''"

text \<open>The zero values of the structs that are declared with \<^verbatim>\<open>var\<close>.\<close>

definition zero_memberDataResponse :: memberDataResponse where
  "zero_memberDataResponse =
     \<lparr>memberDataResponse.Data =
        \<lparr>memberDataResponse_Data.Member =
           \<lparr>memberDataResponse_Member.Id = [], Name = [], Email = [], CcType = [], CcLast4 = [],
            Plan = \<lparr>memberDataResponse_Plan.Alias = []\<rparr>,
            ShippingInfo = \<lparr>memberDataResponse_ShippingInfo.Name = [], Address = [], City = [],
                            State = [], Zip = [], Country = []\<rparr>,
            DataFields = None\<rparr>\<rparr>\<rparr>"

definition zero_MemberData :: MemberData where
  "zero_MemberData =
     \<lparr>MemberData.Id = [], Email = [], Name = [], CreditCardLast4 = [], CreditCardType = [],
      ShippingName = [], ShippingAddress = [], ShippingCity = [], ShippingState = [],
      ShippingZip = [], ShippingCountry = [], ShippingOptions = [], DataFields = None, Plan = []\<rparr>"

text \<open>
  \<^verbatim>\<open>graphQL\<close> fills the value behind \<^verbatim>\<open>response\<close> and returns an error. The model takes the
  decoder for the type of \<^verbatim>\<open>response\<close> and the value before the call, and returns the value
  after it with the error. The status code of the response is not read.
\<close>

definition graphQL ::
  "world \<Rightarrow> string \<Rightarrow> (string \<times> string) list \<Rightarrow> (string \<Rightarrow> error + 'r) \<Rightarrow> 'r
     \<Rightarrow> ('r \<times> error option) \<times> wire" where
  "graphQL w query variables unmarshal response =
     (let client = \<lparr>Timeout = 15 * Second\<rparr>;
          gql = \<lparr>Query = query, Variables = variables\<rparr>
      in case Marshal (gqlQuery_value gql) of
           Inl err \<Rightarrow> ((response, Some err), [])
         | Inr body \<Rightarrow>
            (let url = domain @ ''/graphql''
             in case NewRequest w ''POST'' url body of
                  Inl err \<Rightarrow> ((response, Some err), [])
                | Inr req \<Rightarrow>
                   (let req = req\<lparr>Header := HeaderSet (Header req) ''Content-Type'' ''application/json''\<rparr>
                    in case Do w client req of
                         Inl err \<Rightarrow> ((response, Some err), [(client, req)])
                       | Inr res \<Rightarrow>
                          (case Body res of
                             Inl err \<Rightarrow> ((response, Some err), [(client, req)])
                           | Inr responseBody \<Rightarrow>
                              (case unmarshal responseBody of
                                 Inl err \<Rightarrow> ((response, Some err), [(client, req)])
                               | Inr r \<Rightarrow> ((r, None), [(client, req)]))))))"

definition sendRequest ::
  "world \<Rightarrow> string \<Rightarrow> string \<Rightarrow> govalue \<Rightarrow> (string option \<times> error option) \<times> wire" where
  "sendRequest w kind path request =
     (let url = domain @ path;
          client = \<lparr>Timeout = 30 * Second\<rparr>
      in case Marshal request of
           Inl err \<Rightarrow> ((None, Some err), [])
         | Inr body \<Rightarrow>
            (case NewRequest w kind url body of
               Inl err \<Rightarrow> ((None, Some err), [])
             | Inr req \<Rightarrow>
                (let req = req\<lparr>Header := HeaderSet (Header req) ''Content-Type'' ''application/json''\<rparr>
                 in case Do w client req of
                      Inl err \<Rightarrow> ((None, Some err), [(client, req)])
                    | Inr res \<Rightarrow>
                       (case Body res of
                          Inl err \<Rightarrow> ((None, Some err), [(client, req)])
                        | Inr responseBody \<Rightarrow>
                           (if StatusCode res < 200 \<or> StatusCode res > 299
                            then (let errorText = kind @ '' '' @ string_of_int (StatusCode res)
                                        @ '' '' @ url @ '' '' @ responseBody
                                  in ((Some responseBody, Some (ErrorString errorText)),
                                      [(client, req)]))
                            else ((Some responseBody, None), [(client, req)]))))))"

definition Login :: "world \<Rightarrow> LoginRequest \<Rightarrow> (Member option \<times> error option) \<times> wire" where
  "Login w request =
     (case sendRequest w ''POST'' ''/api/service/login'' (LoginRequest_value request) of
        ((body, Some err), sent) \<Rightarrow> ((None, Some err), sent)
      | ((body, None), sent) \<Rightarrow>
         (case unmarshalToken w (bytes body) of
            Inl err \<Rightarrow> ((None, Some err), sent)
          | Inr r \<Rightarrow>
             ((Some \<lparr>Member.PublicKey = LoginRequest.PublicKey request,
                     Member.Token = tokenResponse.Token r\<rparr>, None), sent)))"

text \<open>
  The methods have a pointer receiver: each returns, first, the \<^verbatim>\<open>Member\<close> behind the
  receiver as it is after the call. A request struct is passed by value, so an assignment to
  one of its fields changes the method's own copy.
\<close>

definition GetData ::
  "world \<Rightarrow> Member \<Rightarrow> (Member \<times> MemberData option \<times> error option) \<times> wire" where
  "GetData w member =
     (let response = zero_memberDataResponse;
          variables = [(''token'', Member.Token member)];
          memberData = zero_MemberData
      in case graphQL w getMemberQuery variables (unmarshalMemberData w) response of
           ((response, Some err), sent) \<Rightarrow> ((member, None, Some err), sent)
         | ((response, None), sent) \<Rightarrow>
            (let m = memberDataResponse_Data.Member (memberDataResponse.Data response);
                 memberData = memberData\<lparr>MemberData.CreditCardLast4 := memberDataResponse_Member.CcLast4 m\<rparr>;
                 memberData = memberData\<lparr>MemberData.CreditCardType := memberDataResponse_Member.CcType m\<rparr>;
                 memberData = memberData\<lparr>MemberData.DataFields := memberDataResponse_Member.DataFields m\<rparr>;
                 memberData = memberData\<lparr>MemberData.Email := memberDataResponse_Member.Email m\<rparr>;
                 memberData = memberData\<lparr>MemberData.Id := memberDataResponse_Member.Id m\<rparr>;
                 memberData = memberData\<lparr>MemberData.Name := memberDataResponse_Member.Name m\<rparr>;
                 memberData = memberData\<lparr>MemberData.Plan :=
                                memberDataResponse_Plan.Alias (memberDataResponse_Member.Plan m)\<rparr>;
                 si = memberDataResponse_Member.ShippingInfo m;
                 memberData = memberData\<lparr>MemberData.ShippingAddress := memberDataResponse_ShippingInfo.Address si\<rparr>;
                 memberData = memberData\<lparr>MemberData.ShippingCity := memberDataResponse_ShippingInfo.City si\<rparr>;
                 memberData = memberData\<lparr>MemberData.ShippingCountry := memberDataResponse_ShippingInfo.Country si\<rparr>;
                 memberData = memberData\<lparr>MemberData.ShippingName := memberDataResponse_ShippingInfo.Name si\<rparr>;
                 memberData = memberData\<lparr>MemberData.ShippingState := memberDataResponse_ShippingInfo.State si\<rparr>;
                 memberData = memberData\<lparr>MemberData.ShippingZip := memberDataResponse_ShippingInfo.Zip si\<rparr>
             in ((member, Some memberData, None), sent)))"

definition UpdateSettings ::
  "world \<Rightarrow> Member \<Rightarrow> SettingsRequest \<Rightarrow> (Member \<times> error option) \<times> wire" where
  "UpdateSettings w member request =
     (let request = request\<lparr>SettingsRequest.token := Member.Token member\<rparr>
      in case sendRequest w ''POST'' ''/api/services/user?action=settings''
                (SettingsRequest_value request) of
           ((_, Some err), sent) \<Rightarrow> ((member, Some err), sent)
         | ((_, None), sent) \<Rightarrow> ((member, None), sent))"

definition UpdateCreditCard ::
  "world \<Rightarrow> Member \<Rightarrow> CreditCardRequest \<Rightarrow> (Member \<times> error option) \<times> wire" where
  "UpdateCreditCard w member request =
     (let request = request\<lparr>CreditCardRequest.memberToken := Member.Token member\<rparr>
      in case sendRequest w ''POST'' ''/api/services/user?action=cc''
                (CreditCardRequest_value request) of
           ((_, Some err), sent) \<Rightarrow> ((member, Some err), sent)
         | ((_, None), sent) \<Rightarrow> ((member, None), sent))"

definition CreatePayment :: "world \<Rightarrow> PaymentRequest \<Rightarrow> error option \<times> wire" where
  "CreatePayment w request =
     (case sendRequest w ''POST'' ''/api/payments'' (PaymentRequest_value request) of
        ((_, Some err), sent) \<Rightarrow> (Some err, sent)
      | ((_, None), sent) \<Rightarrow> (None, sent))"

definition CreateSubscription ::
  "world \<Rightarrow> SubscriptionRequest \<Rightarrow> (Member option \<times> error option) \<times> wire" where
  "CreateSubscription w request =
     (let request = request\<lparr>SubscriptionRequest.SubscriptionFor := ''space''\<rparr>
      in case sendRequest w ''POST'' ''/api/subscriptions'' (SubscriptionRequest_value request) of
           ((body, Some err), sent) \<Rightarrow> ((None, Some err), sent)
         | ((body, None), sent) \<Rightarrow>
            (case unmarshalToken w (bytes body) of
               Inl err \<Rightarrow> ((None, Some err), sent)
             | Inr r \<Rightarrow>
                ((Some \<lparr>Member.PublicKey = SubscriptionRequest.PublicKey request,
                        Member.Token = tokenResponse.Token r\<rparr>, None), sent)))"

definition Delete :: "world \<Rightarrow> Member \<Rightarrow> (Member \<times> error option) \<times> wire" where
  "Delete w member =
     (let request = GoMap [(''token'', Member.Token member)]
      in case sendRequest w ''DELETE'' ''/api/service/user'' request of
           ((_, Some err), sent) \<Rightarrow> ((member, Some err), sent)
         | ((_, None), sent) \<Rightarrow> ((member, None), sent))"

definition Logout :: "world \<Rightarrow> Member \<Rightarrow> (Member \<times> error option) \<times> wire" where
  "Logout w member =
     (let request = GoMap [(''token'', Member.Token member),
                           (''public_key'', Member.PublicKey member)]
      in case sendRequest w ''POST'' ''/api/service/logout'' request of
           ((_, Some err), sent) \<Rightarrow> ((member, Some err), sent)
         | ((_, None), sent) \<Rightarrow> ((member, None), sent))"

section \<open>The earlier copy of flexkit.go\<close>

text \<open>
  The repository holds a second copy of the package. It differs from flexkit/flexkit.go in
  \<^verbatim>\<open>sendRequest\<close> (timeout, status test), in the name of the first field of
  \<^verbatim>\<open>SubscriptionRequest\<close>, and in \<^verbatim>\<open>GetData\<close>, which is a stub there.
\<close>

record SubscriptionRequest_variant =
  subscriptionFor :: string
  Email :: string
  Name :: string
  Password :: string
  Plan :: string
  Token :: string
  BillingAddress :: string
  BillingCity :: string
  BillingState :: string
  BillingZip :: string
  BillingCountry :: string
  ShippingName :: string
  ShippingAddress :: string
  ShippingCity :: string
  ShippingState :: string
  ShippingZip :: string
  ShippingCountry :: string
  ShippingOptions :: string
  DataFields :: "DataItem slice"
  PublicKey :: string

definition SubscriptionRequest_variant_value :: "SubscriptionRequest_variant \<Rightarrow> govalue" where
  "SubscriptionRequest_variant_value r =
     GoStruct [(''subscriptionFor'', ''subscription_for'', GoString (SubscriptionRequest_variant.subscriptionFor r)),
               (''Email'', ''email'', GoString (SubscriptionRequest_variant.Email r)),
               (''Name'', ''name'', GoString (SubscriptionRequest_variant.Name r)),
               (''Password'', ''password'', GoString (SubscriptionRequest_variant.Password r)),
               (''Plan'', ''plan'', GoString (SubscriptionRequest_variant.Plan r)),
               (''Token'', ''token'', GoString (SubscriptionRequest_variant.Token r)),
               (''BillingAddress'', ''billing_address'', GoString (SubscriptionRequest_variant.BillingAddress r)),
               (''BillingCity'', ''billing_city'', GoString (SubscriptionRequest_variant.BillingCity r)),
               (''BillingState'', ''billing_state'', GoString (SubscriptionRequest_variant.BillingState r)),
               (''BillingZip'', ''billing_zip'', GoString (SubscriptionRequest_variant.BillingZip r)),
               (''BillingCountry'', ''billing_country'', GoString (SubscriptionRequest_variant.BillingCountry r)),
               (''ShippingName'', ''shipping_name'', GoString (SubscriptionRequest_variant.ShippingName r)),
               (''ShippingAddress'', ''shipping_address'', GoString (SubscriptionRequest_variant.ShippingAddress r)),
               (''ShippingCity'', ''shipping_city'', GoString (SubscriptionRequest_variant.ShippingCity r)),
               (''ShippingState'', ''shipping_state'', GoString (SubscriptionRequest_variant.ShippingState r)),
               (''ShippingZip'', ''shipping_zip'', GoString (SubscriptionRequest_variant.ShippingZip r)),
               (''ShippingCountry'', ''shipping_country'', GoString (SubscriptionRequest_variant.ShippingCountry r)),
               (''ShippingOptions'', ''shipping_options'', GoString (SubscriptionRequest_variant.ShippingOptions r)),
               (''DataFields'', ''data_fields'', slice_value DataItem_value (SubscriptionRequest_variant.DataFields r)),
               (''PublicKey'', ''public_key'', GoString (SubscriptionRequest_variant.PublicKey r))]"

definition sendRequest_variant ::
  "world \<Rightarrow> string \<Rightarrow> string \<Rightarrow> govalue \<Rightarrow> (string option \<times> error option) \<times> wire" where
  "sendRequest_variant w kind path request =
     (let url = domain @ path;
          client = \<lparr>Timeout = 5 * Second\<rparr>
      in case Marshal request of
           Inl err \<Rightarrow> ((None, Some err), [])
         | Inr body \<Rightarrow>
            (case NewRequest w kind url body of
               Inl err \<Rightarrow> ((None, Some err), [])
             | Inr req \<Rightarrow>
                (let req = req\<lparr>Header := HeaderSet (Header req) ''Content-Type'' ''application/json''\<rparr>
                 in case Do w client req of
                      Inl err \<Rightarrow> ((None, Some err), [(client, req)])
                    | Inr res \<Rightarrow>
                       (case Body res of
                          Inl err \<Rightarrow> ((None, Some err), [(client, req)])
                        | Inr responseBody \<Rightarrow>
                           (if StatusCode res < 200 \<or> StatusCode res > 300
                            then (let errorText = kind @ '' '' @ string_of_int (StatusCode res)
                                        @ '' '' @ url @ '' '' @ responseBody
                                  in ((Some responseBody, Some (ErrorString errorText)),
                                      [(client, req)]))
                            else ((Some responseBody, None), [(client, req)]))))))"

definition GetData_variant ::
  "world \<Rightarrow> Member \<Rightarrow> (Member \<times> MemberData option \<times> error option) \<times> wire" where
  "GetData_variant w member = ((member, None, None), [])"

definition CreateSubscription_variant ::
  "world \<Rightarrow> SubscriptionRequest_variant \<Rightarrow> (Member option \<times> error option) \<times> wire" where
  "CreateSubscription_variant w request =
     (let request = request\<lparr>SubscriptionRequest_variant.subscriptionFor := ''space''\<rparr>
      in case sendRequest_variant w ''POST'' ''/api/subscriptions''
                (SubscriptionRequest_variant_value request) of
           ((body, Some err), sent) \<Rightarrow> ((None, Some err), sent)
         | ((body, None), sent) \<Rightarrow>
            (case unmarshalToken w (bytes body) of
               Inl err \<Rightarrow> ((None, Some err), sent)
             | Inr r \<Rightarrow>
                ((Some \<lparr>Member.PublicKey = SubscriptionRequest_variant.PublicKey request,
                        Member.Token = tokenResponse.Token r\<rparr>, None), sent)))"

section \<open>members.go\<close>

definition plasso_gqlQuery_value :: "plasso_gqlQuery \<Rightarrow> govalue" where
  "plasso_gqlQuery_value q =
     GoStruct [(''Query'', ''query'', GoString (plasso_gqlQuery.Query q))]"

text \<open>\<^verbatim>\<open>strings.Replace(s, old, new, 1)\<close>: the first occurrence of \<open>old\<close> is replaced.\<close>

fun Replace1 :: "string \<Rightarrow> string \<Rightarrow> string \<Rightarrow> string" where
  "Replace1 s old new =
     (if take (length old) s = old then new @ drop (length old) s
      else case s of [] \<Rightarrow> [] | c # cs \<Rightarrow> c # Replace1 cs old new)"

declare Replace1.simps [simp del]

definition New :: "world \<Rightarrow> string \<Rightarrow> (plasso option \<times> error option) \<times> wire" where
  "New w tok =
     (let client = \<lparr>Timeout = 1 * Second\<rparr>;
          template = ''{member(token:'' @ [CHR 0x22] @ ''{{.token}}'' @ [CHR 0x22]
                       @ ''){id,planId,space{logoutUrl}}}'';
          query = Replace1 template ''{{.token}}'' tok;
          gql = \<lparr>plasso_gqlQuery.Query = query\<rparr>
      in case Marshal (plasso_gqlQuery_value gql) of
           Inl err \<Rightarrow> ((None, Some err), [])
         | Inr body \<Rightarrow>
            (case NewRequest w ''POST'' ''https://api.plasso.com'' body of
               Inl err \<Rightarrow> ((None, Some err), [])
             | Inr req \<Rightarrow>
                (let req = req\<lparr>Header := HeaderSet (Header req) ''Content-Type'' ''application/json''\<rparr>
                 in case Do w client req of
                      Inl err \<Rightarrow> ((None, Some err), [(client, req)])
                    | Inr res \<Rightarrow>
                       (case Body res of
                          Inl err \<Rightarrow> ((None, Some err), [(client, req)])
                        | Inr responseBody \<Rightarrow>
                           (case unmarshalGql w responseBody of
                              Inl err \<Rightarrow> ((None, Some err), [(client, req)])
                            | Inr r \<Rightarrow>
                               (let m = gqlResponse_Data.Member (gqlResponse.Data r)
                                in ((Some \<lparr>plasso.LoggedIn = True, plasso.Token = tok,
                                            plasso.Id = gqlResponse_Member.Id m,
                                            plasso.PlanId = gqlResponse_Member.PlanId m,
                                            plasso.Space =
                                              \<lparr>space.LogoutUrl =
                                                 gqlResponse_Space.LogoutUrl (gqlResponse_Member.Space m)\<rparr>\<rparr>,
                                      None), [(client, req)])))))))"

section \<open>A canned world\<close>

text \<open>
  A server that answers every request with one status code and one body, a
  \<^verbatim>\<open>http.NewRequest\<close> that accepts every request, and decoders that know three bodies: the
  empty object, which leaves the zero value, an object with a token, and an object with the
  data of a member. An object with members that the target does not have decodes to the zero
  value.
\<close>

definition empty_object :: string where
  "empty_object = ''{}''"

definition quoted :: "string \<Rightarrow> string" where
  "quoted s = [CHR 0x22] @ s @ [CHR 0x22]"

definition token_object :: string where
  "token_object = ''{'' @ quoted ''token'' @ '':'' @ quoted ''abc'' @ ''}''"

definition member_object :: string where
  "member_object =
     ''{'' @ quoted ''data'' @ '':{'' @ quoted ''member'' @ '':{''
       @ quoted ''id'' @ '':'' @ quoted ''m1'' @ '',''
       @ quoted ''name'' @ '':'' @ quoted ''Ann'' @ '',''
       @ quoted ''ccLast4'' @ '':'' @ quoted ''4242'' @ '',''
       @ quoted ''plan'' @ '':{'' @ quoted ''alias'' @ '':'' @ quoted ''gold'' @ ''}''
       @ ''}}}''"

definition member_response :: memberDataResponse where
  "member_response =
     \<lparr>memberDataResponse.Data =
        \<lparr>memberDataResponse_Data.Member =
           \<lparr>memberDataResponse_Member.Id = ''m1'', Name = ''Ann'', Email = [], CcType = [],
            CcLast4 = ''4242'',
            Plan = \<lparr>memberDataResponse_Plan.Alias = ''gold''\<rparr>,
            ShippingInfo = \<lparr>memberDataResponse_ShippingInfo.Name = [], Address = [], City = [],
                            State = [], Zip = [], Country = []\<rparr>,
            DataFields = None\<rparr>\<rparr>\<rparr>"

definition zero_gqlResponse :: gqlResponse where
  "zero_gqlResponse =
     \<lparr>gqlResponse.Data =
        \<lparr>gqlResponse_Data.Member =
           \<lparr>gqlResponse_Member.Id = [], gqlResponse_Member.PlanId = 0,
            gqlResponse_Member.Space = \<lparr>gqlResponse_Space.Slug = [], gqlResponse_Space.LogoutUrl = []\<rparr>\<rparr>\<rparr>\<rparr>"

definition canned :: "int \<Rightarrow> string \<Rightarrow> world" where
  "canned status body =
     \<lparr>newRequestErr = (\<lambda>method url. None),
      Do = (\<lambda>client req. Inr \<lparr>StatusCode = status, Body = Inr body\<rparr>),
      unmarshalToken =
        (\<lambda>b. if b = token_object then Inr \<lparr>tokenResponse.Token = ''abc''\<rparr>
              else if b = empty_object \<or> b = member_object then Inr \<lparr>tokenResponse.Token = []\<rparr>
              else Inl (UnmarshalError b)),
      unmarshalMemberData =
        (\<lambda>b. if b = member_object then Inr member_response
              else if b = empty_object \<or> b = token_object then Inr zero_memberDataResponse
              else Inl (UnmarshalError b)),
      unmarshalGql =
        (\<lambda>b. if b = member_object
              then Inr (zero_gqlResponse
                     \<lparr>gqlResponse.Data :=
                        \<lparr>gqlResponse_Data.Member =
                           (gqlResponse_Data.Member (gqlResponse.Data zero_gqlResponse))
                             \<lparr>gqlResponse_Member.Id := ''m1''\<rparr>\<rparr>\<rparr>)
              else if b = empty_object \<or> b = token_object then Inr zero_gqlResponse
              else Inl (UnmarshalError b))\<rparr>"

section \<open>What json.Marshal gives for the request structs\<close>

lemma Marshal_LoginRequest:
  "Marshal (LoginRequest_value r) =
     Inr (JObject [(''public_key'', JString (LoginRequest.PublicKey r)),
                   (''email'', JString (LoginRequest.Email r)),
                   (''password'', JString (LoginRequest.Password r))])"
  by (simp add: LoginRequest_value_def exported_def)

lemma Marshal_SettingsRequest:
  "Marshal (SettingsRequest_value r) =
     Inr (JObject [(''email'', JString (SettingsRequest.Email r)),
                   (''name'', JString (SettingsRequest.Name r)),
                   (''shipping_name'', JString (SettingsRequest.ShippingName r)),
                   (''shipping_address'', JString (SettingsRequest.ShippingAddress r)),
                   (''shipping_city'', JString (SettingsRequest.ShippingCity r)),
                   (''shipping_state'', JString (SettingsRequest.ShippingState r)),
                   (''shipping_zip'', JString (SettingsRequest.ShippingZip r)),
                   (''shipping_country'', JString (SettingsRequest.ShippingCountry r)),
                   (''shipping_options'', JString (SettingsRequest.ShippingOptions r))])"
  by (simp add: SettingsRequest_value_def exported_def)

lemma Marshal_CreditCardRequest:
  "Marshal (CreditCardRequest_value r) =
     Inr (JObject [(''cc_last_4'', JString (CreditCardRequest.Last4 r)),
                   (''cc_type'', JString (CreditCardRequest.Type r)),
                   (''plan'', JString (CreditCardRequest.PlanId r)),
                   (''token'', JString (CreditCardRequest.Token r))])"
  by (simp add: CreditCardRequest_value_def exported_def)

lemma Marshal_gqlQuery:
  "Marshal (gqlQuery_value \<lparr>gqlQuery.Query = q, Variables = vs\<rparr>) =
     Inr (JObject [(''query'', JString q),
                   (''variables'', JObject (map (\<lambda>kv. (fst kv, JString (snd kv)))
                                              (sort_key fst vs)))])"
  by (simp add: gqlQuery_value_def exported_def)

lemma Marshal_plasso_gqlQuery:
  "Marshal (plasso_gqlQuery_value \<lparr>plasso_gqlQuery.Query = q\<rparr>) = Inr (JObject [(''query'', JString q)])"
  by (simp add: plasso_gqlQuery_value_def exported_def)

lemma collect_DataItems:
  "collect (map Marshal (map DataItem_value ds)) =
     Inr (map (\<lambda>d. JObject [(''id'', JString (DataItem.Id d)), (''value'', JString (DataItem.Value d))]) ds)"
  by (induction ds) (simp_all add: DataItem_value_def exported_def)

lemma collect_Products:
  "collect (map Marshal (map Product_value ps)) =
     Inr (map (\<lambda>p. JObject [(''id'', JString (Product.Id p)), (''qty'', JString (Product.Qty p)),
                              (''amount'', JString (Product.Amount p))]) ps)"
  by (induction ps) (simp_all add: Product_value_def exported_def)

lemma Marshal_DataItems:
  "Marshal (slice_value DataItem_value xs) =
     Inr (case xs of None \<Rightarrow> JNull
          | Some ds \<Rightarrow> JArray (map (\<lambda>d. JObject [(''id'', JString (DataItem.Id d)),
                                                    (''value'', JString (DataItem.Value d))]) ds))"
  by (cases xs) (simp_all add: slice_value_def collect_DataItems del: map_map)

lemma Marshal_Products:
  "Marshal (slice_value Product_value xs) =
     Inr (case xs of None \<Rightarrow> JNull
          | Some ps \<Rightarrow> JArray (map (\<lambda>p. JObject [(''id'', JString (Product.Id p)),
                                 (''qty'', JString (Product.Qty p)),
                                 (''amount'', JString (Product.Amount p))]) ps))"
  by (cases xs) (simp_all add: slice_value_def collect_Products del: map_map)

lemma Marshal_PaymentRequest: "\<exists>ms. Marshal (PaymentRequest_value r) = Inr (JObject ms)"
  by (simp add: PaymentRequest_value_def exported_def Marshal_DataItems Marshal_Products)

lemma Marshal_SubscriptionRequest:
  "\<exists>ms. Marshal (SubscriptionRequest_value r) =
     Inr (JObject ((''subscription_for'', JString (SubscriptionRequest.SubscriptionFor r)) # ms))"
  by (simp add: SubscriptionRequest_value_def exported_def Marshal_DataItems)

lemma Marshal_SubscriptionRequest_variant:
  "\<exists>ms. Marshal (SubscriptionRequest_variant_value r) = Inr (JObject ms) \<and> map_of ms ''subscription_for'' = None"
  by (simp add: SubscriptionRequest_variant_value_def exported_def Marshal_DataItems)

section \<open>Login\<close>

text \<open>
  C4. For every LoginRequest, if the POST to /api/service/login is accepted, answered with a
  status from 200 to 299 and a body that unmarshals into a token response with token \<open>t\<close>,
  then Login returns a nil error and a Member with the request's PublicKey and with Token \<open>t\<close>.
\<close>

theorem Login_success:
  assumes "newRequestErr w ''POST'' ''https://plasso.com/api/service/login'' = None"
    and "Do w \<lparr>Timeout = 30 * Second\<rparr>
            \<lparr>Method = ''POST'', URL = ''https://plasso.com/api/service/login'',
             Header = [(''Content-Type'', ''application/json'')],
             ReqBody = JObject [(''public_key'', JString (LoginRequest.PublicKey r)),
                                (''email'', JString (LoginRequest.Email r)),
                                (''password'', JString (LoginRequest.Password r))]\<rparr>
          = Inr \<lparr>StatusCode = status, Body = Inr b\<rparr>"
    and "200 \<le> status" and "status \<le> 299"
    and "unmarshalToken w b = Inr tr" and "tokenResponse.Token tr = t"
  shows "fst (Login w r) =
           (Some \<lparr>Member.PublicKey = LoginRequest.PublicKey r, Member.Token = t\<rparr>, None)"
  using assms
  by (simp add: Login_def sendRequest_def Marshal_LoginRequest NewRequest_def HeaderSet_def
        domain_def bytes_def Let_def)

theorem Login_success_witness:
  "fst (Login (canned 200 token_object)
          \<lparr>LoginRequest.PublicKey = ''pk'', Email = ''e'', Password = ''p''\<rparr>)
     = (Some \<lparr>Member.PublicKey = ''pk'', Member.Token = ''abc''\<rparr>, None)"
  using Login_success [of "canned 200 token_object"
      "\<lparr>LoginRequest.PublicKey = ''pk'', Email = ''e'', Password = ''p''\<rparr>"
      200 token_object "\<lparr>tokenResponse.Token = ''abc''\<rparr>" "''abc''"]
  by (simp add: canned_def)

section \<open>What each call hands to the network\<close>

text \<open>
  The requests sent by \<^verbatim>\<open>sendRequest\<close> (both copies), \<^verbatim>\<open>graphQL\<close> and \<^verbatim>\<open>New\<close>, and the
  error of \<^verbatim>\<open>sendRequest\<close> in flexkit/flexkit.go.
\<close>

lemma sendRequest_wire:
  assumes "Marshal v = Inr j"
  shows "snd (sendRequest w kind path v) =
     (if newRequestErr w kind (domain @ path) = None
      then [(\<lparr>Timeout = 30 * Second\<rparr>,
             \<lparr>Method = (if kind = [] then ''GET'' else kind), URL = domain @ path,
              Header = [(''Content-Type'', ''application/json'')], ReqBody = j\<rparr>)]
      else [])"
proof (cases "newRequestErr w kind (domain @ path)")
  case None
  then show ?thesis using assms
    by (simp add: sendRequest_def NewRequest_def HeaderSet_def Let_def split: sum.split)
next
  case (Some e)
  then show ?thesis using assms
    by (simp add: sendRequest_def NewRequest_def)
qed

lemma sendRequest_variant_wire:
  assumes "Marshal v = Inr j"
  shows "snd (sendRequest_variant w kind path v) =
     (if newRequestErr w kind (domain @ path) = None
      then [(\<lparr>Timeout = 5 * Second\<rparr>,
             \<lparr>Method = (if kind = [] then ''GET'' else kind), URL = domain @ path,
              Header = [(''Content-Type'', ''application/json'')], ReqBody = j\<rparr>)]
      else [])"
proof (cases "newRequestErr w kind (domain @ path)")
  case None
  then show ?thesis using assms
    by (simp add: sendRequest_variant_def NewRequest_def HeaderSet_def Let_def split: sum.split)
next
  case (Some e)
  then show ?thesis using assms
    by (simp add: sendRequest_variant_def NewRequest_def)
qed

lemma sendRequest_Marshal_error:
  "Marshal v = Inl e \<Longrightarrow> sendRequest w kind path v = ((None, Some e), [])"
  by (simp add: sendRequest_def)

lemma sendRequest_variant_Marshal_error:
  "Marshal v = Inl e \<Longrightarrow> sendRequest_variant w kind path v = ((None, Some e), [])"
  by (simp add: sendRequest_variant_def)

lemma graphQL_wire:
  "snd (graphQL w q vs um resp) =
     (if newRequestErr w ''POST'' (domain @ ''/graphql'') = None
      then [(\<lparr>Timeout = 15 * Second\<rparr>,
             \<lparr>Method = ''POST'', URL = domain @ ''/graphql'',
              Header = [(''Content-Type'', ''application/json'')],
              ReqBody = JObject [(''query'', JString q),
                                 (''variables'', JObject (map (\<lambda>kv. (fst kv, JString (snd kv)))
                                                            (sort_key fst vs)))]\<rparr>)]
      else [])"
proof (cases "newRequestErr w ''POST'' (domain @ ''/graphql'')")
  case None
  then show ?thesis
    by (simp add: graphQL_def Marshal_gqlQuery NewRequest_def HeaderSet_def Let_def split: sum.split)
next
  case (Some e)
  then show ?thesis
    by (simp add: graphQL_def Marshal_gqlQuery NewRequest_def)
qed

lemma New_wire:
  "map (Timeout \<circ> fst) (snd (New w tok)) =
     (if newRequestErr w ''POST'' ''https://api.plasso.com'' = None then [1 * Second] else [])"
proof (cases "newRequestErr w ''POST'' ''https://api.plasso.com''")
  case None
  then show ?thesis
    by (simp add: New_def Marshal_plasso_gqlQuery NewRequest_def HeaderSet_def Let_def split: sum.split)
next
  case (Some e)
  then show ?thesis
    by (simp add: New_def Marshal_plasso_gqlQuery NewRequest_def)
qed

lemma sendRequest_status_error:
  assumes "Marshal v = Inr j"
    and "newRequestErr w kind (domain @ path) = None"
    and "Do w \<lparr>Timeout = 30 * Second\<rparr>
            \<lparr>Method = (if kind = [] then ''GET'' else kind), URL = domain @ path,
             Header = [(''Content-Type'', ''application/json'')], ReqBody = j\<rparr>
          = Inr \<lparr>StatusCode = status, Body = Inr b\<rparr>"
    and "status < 200 \<or> 299 < status"
  shows "fst (sendRequest w kind path v) =
           (Some b, Some (ErrorString (kind @ '' '' @ string_of_int status @ '' ''
                                        @ (domain @ path) @ '' '' @ b)))"
  using assms
  by (simp add: sendRequest_def NewRequest_def HeaderSet_def Let_def)

lemma sendRequest_error_iff:
  "(snd (fst (sendRequest w kind path v)) \<noteq> None) =
     (case Marshal v of
        Inl e \<Rightarrow> True
      | Inr j \<Rightarrow>
         (case newRequestErr w kind (domain @ path) of
            Some e \<Rightarrow> True
          | None \<Rightarrow>
             (case Do w \<lparr>Timeout = 30 * Second\<rparr>
                      \<lparr>Method = (if kind = [] then ''GET'' else kind), URL = domain @ path,
                       Header = [(''Content-Type'', ''application/json'')], ReqBody = j\<rparr> of
                Inl e \<Rightarrow> True
              | Inr res \<Rightarrow>
                 (case Body res of
                    Inl e \<Rightarrow> True
                  | Inr b \<Rightarrow> StatusCode res < 200 \<or> 299 < StatusCode res))))"
proof (cases "Marshal v")
  case (Inl e)
  then show ?thesis by (simp add: sendRequest_def)
next
  case (Inr j)
  note m = this
  show ?thesis
  proof (cases "newRequestErr w kind (domain @ path)")
    case (Some e)
    with m show ?thesis by (simp add: sendRequest_def NewRequest_def)
  next
    case None
    note n = this
    show ?thesis
    proof (cases "Do w \<lparr>Timeout = 30 * Second\<rparr>
                      \<lparr>Method = (if kind = [] then ''GET'' else kind), URL = domain @ path,
                       Header = [(''Content-Type'', ''application/json'')], ReqBody = j\<rparr>")
      case (Inl e)
      with m n show ?thesis
        by (simp add: sendRequest_def NewRequest_def HeaderSet_def Let_def)
    next
      case (Inr res)
      with m n show ?thesis
        by (cases "Body res") (simp_all add: sendRequest_def NewRequest_def HeaderSet_def Let_def)
    qed
  qed
qed

lemma Login_wire:
  "snd (Login w r) = snd (sendRequest w ''POST'' ''/api/service/login'' (LoginRequest_value r))"
  by (simp add: Login_def split: prod.split option.split sum.split)

lemma CreatePayment_wire:
  "snd (CreatePayment w r) = snd (sendRequest w ''POST'' ''/api/payments'' (PaymentRequest_value r))"
  by (simp add: CreatePayment_def split: prod.split option.split)

lemma CreateSubscription_wire:
  "snd (CreateSubscription w r) =
     snd (sendRequest w ''POST'' ''/api/subscriptions''
            (SubscriptionRequest_value (r\<lparr>SubscriptionRequest.SubscriptionFor := ''space''\<rparr>)))"
  by (simp add: CreateSubscription_def Let_def split: prod.split option.split sum.split)

lemma CreateSubscription_variant_wire:
  "snd (CreateSubscription_variant w r) =
     snd (sendRequest_variant w ''POST'' ''/api/subscriptions''
            (SubscriptionRequest_variant_value
               (r\<lparr>SubscriptionRequest_variant.subscriptionFor := ''space''\<rparr>)))"
  by (simp add: CreateSubscription_variant_def Let_def split: prod.split option.split sum.split)

lemma UpdateSettings_wire:
  "snd (UpdateSettings w m r) =
     snd (sendRequest w ''POST'' ''/api/services/user?action=settings''
            (SettingsRequest_value (r\<lparr>SettingsRequest.token := Member.Token m\<rparr>)))"
  by (simp add: UpdateSettings_def Let_def split: prod.split option.split)

lemma UpdateCreditCard_wire:
  "snd (UpdateCreditCard w m r) =
     snd (sendRequest w ''POST'' ''/api/services/user?action=cc''
            (CreditCardRequest_value (r\<lparr>CreditCardRequest.memberToken := Member.Token m\<rparr>)))"
  by (simp add: UpdateCreditCard_def Let_def split: prod.split option.split)

lemma GetData_wire:
  "snd (GetData w m) =
     snd (graphQL w getMemberQuery [(''token'', Member.Token m)] (unmarshalMemberData w)
            zero_memberDataResponse)"
  by (simp add: GetData_def Let_def split: prod.split option.split)

section \<open>Errors\<close>

text \<open>
  C1. Every operation returns a non-nil error exactly when marshaling, the transport, reading
  or decoding the body fails or the status code is outside 200..299; in particular a status
  outside 200..299 on the /graphql call of GetData gives a non-nil error. The code does not
  do this: \<^verbatim>\<open>graphQL\<close> never reads the status code. Against a server that answers 500 with
  the body \<^verbatim>\<open>{}\<close>, GetData returns a nil error and a MemberData of empty fields. The
  operations built on \<^verbatim>\<open>sendRequest\<close> do test the status (\<open>sendRequest_error_iff\<close>).
\<close>

theorem GetData_status_500_nil_error:
  "fst (GetData (canned 500 empty_object) m) = (m, Some zero_MemberData, None)"
  by (simp add: GetData_def graphQL_def Marshal_gqlQuery NewRequest_def HeaderSet_def Let_def
        canned_def empty_object_def member_object_def quoted_def
        zero_memberDataResponse_def zero_MemberData_def)

text \<open>
  In flexkit/flexkit.go a status of 300 is an error whose text is the method, the status, the
  URL and the body, in that order.
\<close>

lemma sendRequest_status_300_error:
  "fst (sendRequest (canned 300 b) ''POST'' ''/api/payments'' (GoMap [])) =
     (Some b, Some (ErrorString (''POST 300 https://plasso.com/api/payments '' @ b)))"
  using sendRequest_status_error [of "GoMap []" "JObject []" "canned 300 b" "''POST''"
      "''/api/payments''" 300 b]
  by (simp add: canned_def domain_def string_of_int_def string_of_nat.simps)

text \<open>
  C2. For every response whose status is not in 200..299, so also for status 300,
  \<^verbatim>\<open>sendRequest\<close> returns an error with the method, the status, the URL and the body. The
  earlier copy of \<^verbatim>\<open>sendRequest\<close> tests \<^verbatim>\<open>> 300\<close>, not \<^verbatim>\<open>> 299\<close>: for status 300 it returns
  the body and a nil error. flexkit/flexkit.go does what the claim says
  (\<open>sendRequest_status_error\<close>, \<open>sendRequest_status_300_error\<close>).
\<close>

theorem sendRequest_variant_status_300_nil_error:
  "fst (sendRequest_variant (canned 300 b) ''POST'' ''/api/payments'' (GoMap [])) = (Some b, None)"
  by (simp add: sendRequest_variant_def NewRequest_def HeaderSet_def Let_def canned_def)

section \<open>The token in the bodies of UpdateSettings and UpdateCreditCard\<close>

text \<open>
  C3. The body posted by UpdateSettings and by UpdateCreditCard has a member \<^verbatim>\<open>pltoken\<close>
  with the Member's token. The code does not do this: the fields \<^verbatim>\<open>token\<close> and
  \<^verbatim>\<open>memberToken\<close> that carry the tag \<^verbatim>\<open>pltoken\<close> are not exported, so \<^verbatim>\<open>json.Marshal\<close> leaves
  them out. Against a server that answers 200, for every Member and every request, the one
  body that each method posts has no member \<^verbatim>\<open>pltoken\<close>.
\<close>

theorem Update_bodies_have_no_pltoken:
  "map (\<lambda>cq. json_member (ReqBody (snd cq)) ''pltoken'')
       (snd (UpdateSettings (canned 200 empty_object) m r)) = [None]
   \<and> map (\<lambda>cq. json_member (ReqBody (snd cq)) ''pltoken'')
       (snd (UpdateCreditCard (canned 200 empty_object) m c)) = [None]"
  by (simp add: UpdateSettings_wire UpdateCreditCard_wire
        sendRequest_wire [OF Marshal_SettingsRequest] sendRequest_wire [OF Marshal_CreditCardRequest]
        canned_def)

section \<open>GetData\<close>

text \<open>In the earlier copy GetData is a stub: it sends nothing and returns two nils.\<close>

lemma GetData_variant_sends_nothing:
  "GetData_variant w m = ((m, None, None), [])"
  by (simp add: GetData_variant_def)

text \<open>
  C5. For every Member, if the /graphql call succeeds and its body unmarshals into the
  member-data response, GetData returns a nil error and a MemberData whose fields are the
  fields of the response: Id, Name, Email, CreditCardLast4 from ccLast4, CreditCardType from
  ccType, the six shipping fields from shippingInfo, DataFields from dataFields, and Plan from
  the alias of plan. ShippingOptions stays empty. The status code plays no part.
\<close>

theorem GetData_success:
  assumes "newRequestErr w ''POST'' ''https://plasso.com/graphql'' = None"
    and "Do w \<lparr>Timeout = 15 * Second\<rparr>
            \<lparr>Method = ''POST'', URL = ''https://plasso.com/graphql'',
             Header = [(''Content-Type'', ''application/json'')],
             ReqBody = JObject [(''query'', JString getMemberQuery),
                                (''variables'', JObject [(''token'', JString (Member.Token m))])]\<rparr>
          = Inr \<lparr>StatusCode = status, Body = Inr b\<rparr>"
    and "unmarshalMemberData w b = Inr resp"
    and "memberDataResponse_Data.Member (memberDataResponse.Data resp) = rm"
  shows "fst (GetData w m) =
           (m,
            Some \<lparr>MemberData.Id = memberDataResponse_Member.Id rm,
                  Email = memberDataResponse_Member.Email rm,
                  Name = memberDataResponse_Member.Name rm,
                  CreditCardLast4 = memberDataResponse_Member.CcLast4 rm,
                  CreditCardType = memberDataResponse_Member.CcType rm,
                  ShippingName = memberDataResponse_ShippingInfo.Name (memberDataResponse_Member.ShippingInfo rm),
                  ShippingAddress = memberDataResponse_ShippingInfo.Address (memberDataResponse_Member.ShippingInfo rm),
                  ShippingCity = memberDataResponse_ShippingInfo.City (memberDataResponse_Member.ShippingInfo rm),
                  ShippingState = memberDataResponse_ShippingInfo.State (memberDataResponse_Member.ShippingInfo rm),
                  ShippingZip = memberDataResponse_ShippingInfo.Zip (memberDataResponse_Member.ShippingInfo rm),
                  ShippingCountry = memberDataResponse_ShippingInfo.Country (memberDataResponse_Member.ShippingInfo rm),
                  ShippingOptions = [],
                  DataFields = memberDataResponse_Member.DataFields rm,
                  Plan = memberDataResponse_Plan.Alias (memberDataResponse_Member.Plan rm)\<rparr>,
            None)"
  using assms
  by (simp add: GetData_def graphQL_def Marshal_gqlQuery NewRequest_def HeaderSet_def Let_def
        domain_def zero_MemberData_def)

theorem GetData_success_witness:
  "fst (GetData (canned 200 member_object) \<lparr>Member.PublicKey = ''pk'', Member.Token = ''abc''\<rparr>) =
     (\<lparr>Member.PublicKey = ''pk'', Member.Token = ''abc''\<rparr>,
      Some \<lparr>MemberData.Id = ''m1'', Email = [], Name = ''Ann'', CreditCardLast4 = ''4242'',
            CreditCardType = [], ShippingName = [], ShippingAddress = [], ShippingCity = [],
            ShippingState = [], ShippingZip = [], ShippingCountry = [], ShippingOptions = [],
            DataFields = None, Plan = ''gold''\<rparr>,
      None)"
  using GetData_success [of "canned 200 member_object"
      "\<lparr>Member.PublicKey = ''pk'', Member.Token = ''abc''\<rparr>" 200 member_object member_response
      "memberDataResponse_Data.Member (memberDataResponse.Data member_response)"]
  by (simp add: canned_def member_response_def)

section \<open>Where the requests go\<close>

lemma CreateSubscription_body:
  "map (\<lambda>cq. json_member (ReqBody (snd cq)) ''subscription_for'') (snd (CreateSubscription w r)) =
     (if newRequestErr w ''POST'' (domain @ ''/api/subscriptions'') = None
      then [Some (JString ''space'')] else [])"
proof -
  obtain ms where "Marshal (SubscriptionRequest_value (r\<lparr>SubscriptionRequest.SubscriptionFor := ''space''\<rparr>)) =
      Inr (JObject ((''subscription_for'', JString ''space'') # ms))"
    using Marshal_SubscriptionRequest [of "r\<lparr>SubscriptionRequest.SubscriptionFor := ''space''\<rparr>"]
    by auto
  then show ?thesis
    by (simp add: CreateSubscription_wire sendRequest_wire)
qed

text \<open>
  C6. Login posts to https://plasso.com/api/service/login, CreatePayment to
  https://plasso.com/api/payments, CreateSubscription to https://plasso.com/api/subscriptions
  and GetData to https://plasso.com/graphql. When \<^verbatim>\<open>http.NewRequest\<close> accepts the request, each
  call sends exactly one request: a POST to the domain followed by the path, with the one
  header Content-Type: application/json. Otherwise it sends none.
\<close>

theorem requests_method_url_header:
  "map (\<lambda>cq. (Method (snd cq), URL (snd cq), Header (snd cq))) (snd (Login w lr)) =
     (if newRequestErr w ''POST'' (domain @ ''/api/service/login'') = None
      then [(''POST'', ''https://plasso.com/api/service/login'',
             [(''Content-Type'', ''application/json'')])] else [])
   \<and> map (\<lambda>cq. (Method (snd cq), URL (snd cq), Header (snd cq))) (snd (CreatePayment w pr)) =
     (if newRequestErr w ''POST'' (domain @ ''/api/payments'') = None
      then [(''POST'', ''https://plasso.com/api/payments'',
             [(''Content-Type'', ''application/json'')])] else [])
   \<and> map (\<lambda>cq. (Method (snd cq), URL (snd cq), Header (snd cq))) (snd (CreateSubscription w sr)) =
     (if newRequestErr w ''POST'' (domain @ ''/api/subscriptions'') = None
      then [(''POST'', ''https://plasso.com/api/subscriptions'',
             [(''Content-Type'', ''application/json'')])] else [])
   \<and> map (\<lambda>cq. (Method (snd cq), URL (snd cq), Header (snd cq))) (snd (GetData w m)) =
     (if newRequestErr w ''POST'' (domain @ ''/graphql'') = None
      then [(''POST'', ''https://plasso.com/graphql'',
             [(''Content-Type'', ''application/json'')])] else [])"
proof -
  obtain pms where p: "Marshal (PaymentRequest_value pr) = Inr (JObject pms)"
    using Marshal_PaymentRequest by blast
  obtain sms where s: "Marshal (SubscriptionRequest_value (sr\<lparr>SubscriptionRequest.SubscriptionFor := ''space''\<rparr>)) =
      Inr (JObject ((''subscription_for'', JString ''space'') # sms))"
    using Marshal_SubscriptionRequest [of "sr\<lparr>SubscriptionRequest.SubscriptionFor := ''space''\<rparr>"]
    by auto
  have 1: "map (\<lambda>cq. (Method (snd cq), URL (snd cq), Header (snd cq))) (snd (Login w lr)) =
     (if newRequestErr w ''POST'' (domain @ ''/api/service/login'') = None
      then [(''POST'', ''https://plasso.com/api/service/login'',
             [(''Content-Type'', ''application/json'')])] else [])"
    by (simp add: Login_wire sendRequest_wire [OF Marshal_LoginRequest] domain_def)
  have 2: "map (\<lambda>cq. (Method (snd cq), URL (snd cq), Header (snd cq))) (snd (CreatePayment w pr)) =
     (if newRequestErr w ''POST'' (domain @ ''/api/payments'') = None
      then [(''POST'', ''https://plasso.com/api/payments'',
             [(''Content-Type'', ''application/json'')])] else [])"
    by (simp add: CreatePayment_wire sendRequest_wire [OF p] domain_def)
  have 3: "map (\<lambda>cq. (Method (snd cq), URL (snd cq), Header (snd cq))) (snd (CreateSubscription w sr)) =
     (if newRequestErr w ''POST'' (domain @ ''/api/subscriptions'') = None
      then [(''POST'', ''https://plasso.com/api/subscriptions'',
             [(''Content-Type'', ''application/json'')])] else [])"
    by (simp add: CreateSubscription_wire sendRequest_wire [OF s] domain_def)
  have 4: "map (\<lambda>cq. (Method (snd cq), URL (snd cq), Header (snd cq))) (snd (GetData w m)) =
     (if newRequestErr w ''POST'' (domain @ ''/graphql'') = None
      then [(''POST'', ''https://plasso.com/graphql'',
             [(''Content-Type'', ''application/json'')])] else [])"
    by (simp add: GetData_wire graphQL_wire domain_def)
  from 1 2 3 4 show ?thesis by blast
qed

section \<open>Timeouts\<close>

text \<open>
  C7. Every call sends its request through a client of its own with a fixed timeout: one
  second in New, 15 seconds in graphQL, 30 seconds in sendRequest of flexkit/flexkit.go and
  5 seconds in sendRequest of the earlier copy; each lies between 1 and 30 seconds.
\<close>

theorem client_timeouts:
  "map (Timeout \<circ> fst) (snd (New w tok)) =
     (if newRequestErr w ''POST'' ''https://api.plasso.com'' = None then [1 * Second] else [])
   \<and> map (Timeout \<circ> fst) (snd (graphQL w q vs um resp)) =
     (if newRequestErr w ''POST'' (domain @ ''/graphql'') = None then [15 * Second] else [])
   \<and> map (Timeout \<circ> fst) (snd (sendRequest w kind path v)) =
     (case Marshal v of
        Inl e \<Rightarrow> []
      | Inr j \<Rightarrow> if newRequestErr w kind (domain @ path) = None then [30 * Second] else [])
   \<and> map (Timeout \<circ> fst) (snd (sendRequest_variant w kind path v)) =
     (case Marshal v of
        Inl e \<Rightarrow> []
      | Inr j \<Rightarrow> if newRequestErr w kind (domain @ path) = None then [5 * Second] else [])
   \<and> list_all (\<lambda>t. 1 * Second \<le> t \<and> t \<le> 30 * Second)
        [1 * Second, 15 * Second, 30 * Second, 5 * Second]"
proof -
  have 3: "map (Timeout \<circ> fst) (snd (sendRequest w kind path v)) =
     (case Marshal v of
        Inl e \<Rightarrow> []
      | Inr j \<Rightarrow> if newRequestErr w kind (domain @ path) = None then [30 * Second] else [])"
    by (cases "Marshal v") (simp_all add: sendRequest_Marshal_error sendRequest_wire)
  have 4: "map (Timeout \<circ> fst) (snd (sendRequest_variant w kind path v)) =
     (case Marshal v of
        Inl e \<Rightarrow> []
      | Inr j \<Rightarrow> if newRequestErr w kind (domain @ path) = None then [5 * Second] else [])"
    by (cases "Marshal v") (simp_all add: sendRequest_variant_Marshal_error sendRequest_variant_wire)
  have 2: "map (Timeout \<circ> fst) (snd (graphQL w q vs um resp)) =
     (if newRequestErr w ''POST'' (domain @ ''/graphql'') = None then [15 * Second] else [])"
    by (simp add: graphQL_wire)
  have 5: "list_all (\<lambda>t. 1 * Second \<le> t \<and> t \<le> 30 * Second)
        [1 * Second, 15 * Second, 30 * Second, 5 * Second]"
    by (simp add: Second_def)
  from New_wire [of w tok] 2 3 4 5 show ?thesis by blast
qed

section \<open>The body of CreateSubscription\<close>

text \<open>
  C8. CreateSubscription sets the field for \<^verbatim>\<open>subscription_for\<close> to \<^verbatim>\<open>space\<close> before sending,
  so the posted body has the member \<^verbatim>\<open>subscription_for\<close> with the value \<^verbatim>\<open>space\<close>. In
  flexkit/flexkit.go it has (\<open>CreateSubscription_body\<close>). In the earlier copy the field is
  \<^verbatim>\<open>subscriptionFor\<close>, which is not exported: the assignment is made, and the body that is
  posted has no member \<^verbatim>\<open>subscription_for\<close>.
\<close>

theorem CreateSubscription_variant_body_has_no_subscription_for:
  "map (\<lambda>cq. json_member (ReqBody (snd cq)) ''subscription_for'')
       (snd (CreateSubscription_variant (canned 200 token_object) r)) = [None]"
proof -
  obtain ms where "Marshal (SubscriptionRequest_variant_value
        (r\<lparr>SubscriptionRequest_variant.subscriptionFor := ''space''\<rparr>)) = Inr (JObject ms)"
      and "map_of ms ''subscription_for'' = None"
    using Marshal_SubscriptionRequest_variant by blast
  then show ?thesis
    by (simp add: CreateSubscription_variant_wire sendRequest_variant_wire canned_def)
qed

section \<open>The receiver and the two results\<close>

text \<open>
  C9. No method of Member changes the Member it is called on: PublicKey and Token are the
  same after GetData, UpdateSettings, UpdateCreditCard, Delete and Logout as before, whether
  the call succeeds or fails. The request of UpdateSettings and UpdateCreditCard is a
  parameter passed by value; the field the method sets belongs to its own copy.
\<close>

theorem Member_methods_keep_receiver:
  "fst (fst (GetData w m)) = m
   \<and> fst (fst (UpdateSettings w m sr)) = m
   \<and> fst (fst (UpdateCreditCard w m cr)) = m
   \<and> fst (fst (Delete w m)) = m
   \<and> fst (fst (Logout w m)) = m"
  by (simp add: GetData_def UpdateSettings_def UpdateCreditCard_def Delete_def Logout_def Let_def
        split: prod.split option.split)

text \<open>
  C10. Login and CreateSubscription return a nil Member with every non-nil error and a
  non-nil Member with every nil error.
\<close>

theorem Login_CreateSubscription_results:
  "(snd (fst (Login w lr)) = None) = (\<exists>m. fst (fst (Login w lr)) = Some m)
   \<and> (snd (fst (CreateSubscription w sr)) = None) = (\<exists>m. fst (fst (CreateSubscription w sr)) = Some m)"
  by (simp add: Login_def CreateSubscription_def Let_def split: prod.split option.split sum.split)

end
